theory Spec2Isabelle
  imports Main "HOL-Library.AList" "HOL-Library.Sublist"
begin

section \<open>Values, exceptions and outcomes\<close>

text \<open>
  A Python exception is its class name and the message it carries (\<open>None\<close>
  when it was built without arguments).
\<close>

datatype exn = PyExn (exn_class: string) (exn_message: "string option")

text \<open>
  A call of the module returns a value, raises, or never returns: a second
  \<^verbatim>\<open>acquire()\<close> of the non-reentrant \<^verbatim>\<open>threading.Lock\<close> that nobody releases.
\<close>

datatype 'a outcome = Returned 'a | Raised exn | Blocked

text \<open>The Python values that conversations and keyword arguments are made of.\<close>

datatype pyval =
    PyNone
  | PyStr string
  | PyInt int
  | PyObj nat
  | PyList "pyval list"
  | PyDict "(string \<times> pyval) list"

section \<open>Model config cache\<close>

text \<open>
  The object that \<^verbatim>\<open>transformers.AutoConfig.from_pretrained\<close> returns; the module
  reads its attributes \<^verbatim>\<open>model_type\<close> and \<^verbatim>\<open>torch_dtype\<close>.
\<close>

record config =
  model_type :: string
  torch_dtype :: string

text \<open>
  The process-wide state: the dict \<^verbatim>\<open>fetched_model_configs\<close> in insertion order,
  the lock (\<open>True\<close> when held), the state of the external registry, the trace of
  the calls of \<^verbatim>\<open>from_pretrained\<close>, what exists on the filesystem, and the lines
  printed so far.
\<close>

record 'r globals =
  fetched_model_configs :: "(string \<times> config) list"
  fetched_model_configs_lock :: bool
  registry :: 'r
  fetch_calls :: "string list"
  path_exists :: "string \<Rightarrow> bool"
  stdout :: "string list"

type_synonym 'r from_pretrained = "'r \<Rightarrow> string \<Rightarrow> (exn + config) \<times> 'r"

definition initial_globals :: "'r \<Rightarrow> (string \<Rightarrow> bool) \<Rightarrow> 'r globals" where
  "initial_globals r fs =
     \<lparr>fetched_model_configs = [], fetched_model_configs_lock = False, registry = r,
      fetch_calls = [], path_exists = fs, stdout = []\<rparr>"

definition fetch_model_config ::
  "'r from_pretrained \<Rightarrow> string \<Rightarrow> 'r globals \<Rightarrow> config outcome \<times> 'r globals" where
  "fetch_model_config from_pretrained model_name g =
     (if fetched_model_configs_lock g then (Blocked, g)
      else
        let g1 = g\<lparr>fetched_model_configs_lock := True\<rparr> in
        case map_of (fetched_model_configs g1) model_name of
          Some model_config \<Rightarrow>
            (Returned model_config, g1\<lparr>fetched_model_configs_lock := False\<rparr>)
        | None \<Rightarrow>
            (case from_pretrained (registry g1) model_name of
               (Inl e, r') \<Rightarrow>
                 (Raised e, g1\<lparr>registry := r', fetch_calls := fetch_calls g1 @ [model_name]\<rparr>)
             | (Inr model_config, r') \<Rightarrow>
                 (Returned model_config,
                  g1\<lparr>registry := r', fetch_calls := fetch_calls g1 @ [model_name],
                     fetched_model_configs :=
                       AList.update model_name model_config (fetched_model_configs g1),
                     fetched_model_configs_lock := False\<rparr>)))"

text \<open>Calling \<^verbatim>\<open>fetch_model_config\<close> for each name of a list, whatever each call does.\<close>

fun fetch_all :: "'r from_pretrained \<Rightarrow> string list \<Rightarrow> 'r globals \<Rightarrow> 'r globals" where
  "fetch_all from_pretrained [] g = g"
| "fetch_all from_pretrained (n # ns) g =
     fetch_all from_pretrained ns (snd (fetch_model_config from_pretrained n g))"

definition get_dtype ::
  "'r from_pretrained \<Rightarrow> string \<Rightarrow> 'r globals \<Rightarrow> string outcome \<times> 'r globals" where
  "get_dtype from_pretrained model_name g =
     (case fetch_model_config from_pretrained model_name g of
        (Returned c, g') \<Rightarrow> (Returned (torch_dtype c), g')
      | (Raised e, g') \<Rightarrow> (Raised e, g')
      | (Blocked, g') \<Rightarrow> (Blocked, g'))"

text \<open>Concrete registries, used to run the model on examples.\<close>

definition llama_registry :: "nat from_pretrained" where
  "llama_registry r n = (Inr \<lparr>model_type = ''llama'', torch_dtype = ''float16''\<rparr>, Suc r)"

definition offline_registry :: "nat from_pretrained" where
  "offline_registry r n = (Inl (PyExn ''OSError'' (Some ''offline'')), Suc r)"

definition bert_registry :: "nat from_pretrained" where
  "bert_registry r n = (Inr \<lparr>model_type = ''bert'', torch_dtype = ''float32''\<rparr>, Suc r)"

section \<open>Backend selector\<close>

text \<open>
  \<^verbatim>\<open>"starchat" in model_name\<close> is Python's substring test, here \<^const>\<open>sublist\<close>.
\<close>

definition generally_supported_model_types :: "string list" where
  "generally_supported_model_types =
     [''llama'', ''gpt_neox'', ''gpt_bigcode'', ''mpt'',
      ''RefinedWeb'', ''RefinedWebModel'', ''falcon'']"

definition get_supported_inference_backends ::
  "'r from_pretrained \<Rightarrow> string \<Rightarrow> 'r globals \<Rightarrow> string list outcome \<times> 'r globals" where
  "get_supported_inference_backends from_pretrained model_name g =
     (if sublist ''starchat'' model_name then (Returned [''tgi'', ''hf_transformers''], g)
      else
        case fetch_model_config from_pretrained model_name g of
          (Returned c, g') \<Rightarrow>
            (if model_type c \<in> set generally_supported_model_types
             then (Returned [''vllm'', ''tgi'', ''hf_transformers''], g')
             else (Returned [], g'))
        | (Raised e, g') \<Rightarrow> (Raised e, g')
        | (Blocked, g') \<Rightarrow> (Blocked, g'))"

definition is_tgi_installed :: "'r globals \<Rightarrow> bool" where
  "is_tgi_installed g = path_exists g ''text-generation-inference''"

definition print :: "string \<Rightarrow> 'r globals \<Rightarrow> 'r globals" where
  "print line g = g\<lparr>stdout := stdout g @ [line]\<rparr>"

text \<open>The two messages of \<^verbatim>\<open>get_inference_backend\<close>; \<open>CHR 0x22\<close> is the double quote.\<close>

definition tgi_warning :: "string \<Rightarrow> string" where
  "tgi_warning model_path =
     ''WARNING: The model '' @ [CHR 0x22] @ model_path @ [CHR 0x22] @
     '' can be greatly accelerated by text-generation-inference, but it is not installed.''"

definition no_backend_message :: "string \<Rightarrow> string" where
  "no_backend_message model_path =
     ''No inference backend supported for model '' @ [CHR 0x22] @ model_path"

definition get_inference_backend ::
  "'r from_pretrained \<Rightarrow> string \<Rightarrow> 'r globals \<Rightarrow> string outcome \<times> 'r globals" where
  "get_inference_backend from_pretrained model_path g =
     (case get_supported_inference_backends from_pretrained model_path g of
        (Raised e, g') \<Rightarrow> (Raised e, g')
      | (Blocked, g') \<Rightarrow> (Blocked, g')
      | (Returned supported_backends, g1) \<Rightarrow>
          if ''vllm'' \<in> set supported_backends then (Returned ''vllm'', g1)
          else if ''tgi'' \<in> set supported_backends \<and> is_tgi_installed g1
          then (Returned ''tgi'', g1)
          else
            let g2 = (if ''tgi'' \<in> set supported_backends
                      then print (tgi_warning model_path) g1 else g1)
            in if ''hf_transformers'' \<in> set supported_backends
               then (Returned ''hf_transformers'', g2)
               else (Raised (PyExn ''Exception'' (Some (no_backend_message model_path))), g2))"

section \<open>Model factory\<close>

datatype model_class =
    Debug | OpenAI | Fastchat | OpenAssistant | Guanaco | FalconInstruct
  | AlpacaWithoutPrefix | AlpacaWithPrefix | ChatML | Starchat | Llama2Chat
  | StableBeluga | Dolphin | OpenchatLlama2V1 | WizardLM

definition model_classes :: "(string \<times> model_class) list" where
  "model_classes =
     [(''debug'', Debug), (''openai'', OpenAI), (''fastchat'', Fastchat),
      (''open-assistant'', OpenAssistant), (''guanaco'', Guanaco),
      (''falcon-instruct'', FalconInstruct),
      (''alpaca-without-prefix'', AlpacaWithoutPrefix),
      (''alpaca-with-prefix'', AlpacaWithPrefix), (''chatml'', ChatML),
      (''starchat'', Starchat), (''llama2-chat'', Llama2Chat),
      (''stable-beluga'', StableBeluga), (''dolphin'', Dolphin),
      (''openchat-llama2-v1'', OpenchatLlama2V1), (''wizard-lm'', WizardLM)]"

text \<open>
  A Python callable takes positional arguments and keyword arguments and returns
  or raises.
\<close>

type_synonym 'a callable = "pyval list \<Rightarrow> (string \<times> pyval) list \<Rightarrow> exn + 'a"

definition lift_result :: "exn + 'a \<Rightarrow> 'a outcome" where
  "lift_result r = (case r of Inl e \<Rightarrow> Raised e | Inr v \<Rightarrow> Returned v)"

text \<open>
  The call \<^verbatim>\<open>f(*args, **kw1, **kw2)\<close>: the interpreter merges the keyword
  arguments before it calls \<open>f\<close> and raises \<^verbatim>\<open>TypeError\<close> (its message, "got multiple
  values for keyword argument", names the keyword) at the first keyword of
  \<open>kw2\<close> that \<open>kw1\<close> has already given.
\<close>

definition call_with_kwargs ::
  "'a callable \<Rightarrow> pyval list \<Rightarrow> (string \<times> pyval) list \<Rightarrow> (string \<times> pyval) list \<Rightarrow> exn + 'a" where
  "call_with_kwargs f args kw1 kw2 =
     (case find (\<lambda>k. k \<in> set (map fst kw1)) (map fst kw2) of
        Some k \<Rightarrow>
          Inl (PyExn ''TypeError'' (Some (''got multiple values for keyword argument '' @ k)))
      | None \<Rightarrow> f args (kw1 @ kw2))"

definition unknown_model_type_message :: "string \<Rightarrow> string" where
  "unknown_model_type_message mtype =
     ''Unknown model type '' @ [CHR 0x22] @ mtype @ [CHR 0x22]"

text \<open>
  The wrapper classes are outside this module: \<open>construct c\<close> is what calling class
  \<open>c\<close> does.
\<close>

definition create_model ::
  "(model_class \<Rightarrow> 'i callable) \<Rightarrow> string \<Rightarrow> string \<Rightarrow>
     (string \<times> pyval) list \<Rightarrow> (string \<times> pyval) list \<Rightarrow> 'i outcome" where
  "create_model construct mtype model_name model_args kwargs =
     (case map_of model_classes mtype of
        None \<Rightarrow> Raised (PyExn ''Exception'' (Some (unknown_model_type_message mtype)))
      | Some model_class \<Rightarrow>
          lift_result
            (call_with_kwargs (construct model_class) [PyStr model_name] model_args kwargs))"

text \<open>A class whose constructor accepts everything and records what it was given.\<close>

definition recording_class :: "model_class \<Rightarrow> (model_class \<times> pyval list \<times> (string \<times> pyval) list) callable" where
  "recording_class c args kw = Inr (c, args, kw)"

section \<open>Reply driver\<close>

record model =
  num_threads :: nat
  reply :: "pyval callable"

text \<open>
  The inner function \<^verbatim>\<open>compute_reply\<close>. Its last statement is a bare \<^verbatim>\<open>raise\<close> with
  no exception being handled, for which the interpreter raises
  \<^verbatim>\<open>RuntimeError("No active exception to reraise")\<close>.
\<close>

definition compute_reply :: "model \<Rightarrow> pyval \<Rightarrow> pyval \<Rightarrow> exn + pyval" where
  "compute_reply m conversation stop_event =
     (case conversation of
        PyList l \<Rightarrow> call_with_kwargs (reply m) [conversation] [] [(''stop_event'', stop_event)]
      | PyDict d \<Rightarrow> call_with_kwargs (reply m) [] d [(''stop_event'', stop_event)]
      | _ \<Rightarrow> Inl (PyExn ''RuntimeError'' (Some ''No active exception to reraise'')))"

text \<open>The results of the items, or the first exception in the order of the items.\<close>

fun collect :: "(exn + 'a) list \<Rightarrow> 'a list outcome" where
  "collect [] = Returned []"
| "collect (Inl e # rs) = Raised e"
| "collect (Inr v # rs) =
     (case collect rs of Returned vs \<Rightarrow> Returned (v # vs) | Raised e \<Rightarrow> Raised e
      | Blocked \<Rightarrow> Blocked)"

text \<open>
  Modelled from the spec: \<^verbatim>\<open>evaluation.utils.process_with_thread_pool\<close> is not among
  the sources. The spec has it process every item with \<open>process_fn\<close>, hand each call
  the shared stop signal, and give the results in the order of the items; a
  failure of an item aborts the computation. The state is the number of
  invocations of the helper so far, and the stop signal of an invocation is a
  fresh object. The worker count and the progress bar's description do not
  change the result.
\<close>

definition process_with_thread_pool ::
  "nat \<Rightarrow> 'a list \<Rightarrow> ('a \<Rightarrow> pyval \<Rightarrow> exn + 'b) \<Rightarrow> string option \<Rightarrow> nat \<Rightarrow>
     'b list outcome \<times> nat" where
  "process_with_thread_pool nthreads items process_fn progress_bar_description invocations =
     (collect (map (\<lambda>item. process_fn item (PyObj invocations)) items), Suc invocations)"

definition compute_model_replies ::
  "model \<Rightarrow> pyval list \<Rightarrow> string option \<Rightarrow> nat \<Rightarrow> pyval list outcome \<times> nat" where
  "compute_model_replies m conversations progress_bar_description invocations =
     (if length conversations = 0 then (Returned [], invocations)
      else process_with_thread_pool (num_threads m) conversations (compute_reply m)
             progress_bar_description invocations)"

text \<open>A model that answers with what it was called with.\<close>

definition echo_model :: model where
  "echo_model = \<lparr>num_threads = 2, reply = (\<lambda>args kw. Inr (PyList (args @ [PyDict kw])))\<rparr>"

section \<open>Backend switcher\<close>

text \<open>
  The four \<^verbatim>\<open>unload_model\<close> functions of the backend modules are outside this
  module: each changes the state \<open>'w\<close> of the backends and returns or raises.
\<close>

type_synonym 'w unload_fn = "'w \<Rightarrow> (exn + unit) \<times> 'w"

record 'w backend_modules =
  hf_transformers_unload_model :: "'w unload_fn"
  vllm_backend_unload_model :: "'w unload_fn"
  tgi_unload_model :: "'w unload_fn"
  fastchat_unload_model :: "'w unload_fn"

definition unload_backend_fns :: "'w backend_modules \<Rightarrow> (string \<times> 'w unload_fn) list" where
  "unload_backend_fns mods =
     [(''hf_transformers'', hf_transformers_unload_model mods),
      (''vllm'', vllm_backend_unload_model mods),
      (''tgi'', tgi_unload_model mods),
      (''fastchat'', fastchat_unload_model mods)]"

text \<open>
  The loop over the items of the dict. The third component of the result is the
  trace of the unload functions invoked, in order.
\<close>

fun unload_loop ::
  "(string \<times> 'w unload_fn) list \<Rightarrow> pyval \<Rightarrow> 'w \<Rightarrow> string list \<Rightarrow>
     unit outcome \<times> 'w \<times> string list" where
  "unload_loop [] new_inference_backend w invoked = (Returned (), w, invoked)"
| "unload_loop ((inference_backend_name, unload_backend_fn) # rest)
       new_inference_backend w invoked =
     (if PyStr inference_backend_name = new_inference_backend
      then unload_loop rest new_inference_backend w invoked
      else
        case unload_backend_fn w of
          (Inl e, w') \<Rightarrow> (Raised e, w', invoked @ [inference_backend_name])
        | (Inr u, w') \<Rightarrow>
            unload_loop rest new_inference_backend w' (invoked @ [inference_backend_name]))"

definition switch_inference_backend ::
  "'w backend_modules \<Rightarrow> pyval \<Rightarrow> 'w \<Rightarrow> unit outcome \<times> 'w \<times> string list" where
  "switch_inference_backend mods new_inference_backend w =
     unload_loop (unload_backend_fns mods) new_inference_backend w []"

definition unload_model :: "'w backend_modules \<Rightarrow> 'w \<Rightarrow> unit outcome \<times> 'w \<times> string list" where
  "unload_model mods w = switch_inference_backend mods PyNone w"

text \<open>
  What the description of the switcher says, to compare the loop with: invoke each
  function of a list in order, up to the first one that raises.
\<close>

fun invoke_each ::
  "(string \<times> 'w unload_fn) list \<Rightarrow> 'w \<Rightarrow> string list \<Rightarrow> unit outcome \<times> 'w \<times> string list" where
  "invoke_each [] w invoked = (Returned (), w, invoked)"
| "invoke_each ((name, fn) # rest) w invoked =
     (case fn w of
        (Inl e, w') \<Rightarrow> (Raised e, w', invoked @ [name])
      | (Inr u, w') \<Rightarrow> invoke_each rest w' (invoked @ [name]))"

text \<open>
  Backend modules whose unload functions return; each adds its own amount to a
  counter, which so tells which of them have run.
\<close>

definition counting_modules :: "nat backend_modules" where
  "counting_modules =
     \<lparr>hf_transformers_unload_model = (\<lambda>w. (Inr (), w + 1)),
      vllm_backend_unload_model = (\<lambda>w. (Inr (), w + 10)),
      tgi_unload_model = (\<lambda>w. (Inr (), w + 100)),
      fastchat_unload_model = (\<lambda>w. (Inr (), w + 1000))\<rparr>"

section \<open>Properties of the config cache\<close>

definition cache_inv :: "'r globals \<Rightarrow> bool" where
  "cache_inv g \<longleftrightarrow>
     distinct (map fst (fetched_model_configs g)) \<and> distinct (fetch_calls g) \<and>
     (\<not> fetched_model_configs_lock g \<longrightarrow>
        set (fetch_calls g) \<subseteq> fst ` set (fetched_model_configs g))"

lemma cache_inv_initial: "cache_inv (initial_globals r fs)"
  by (simp add: cache_inv_def initial_globals_def)

lemma map_of_None_keys: "map_of al k = None \<Longrightarrow> k \<notin> fst ` set al"
  by (simp add: map_of_eq_None_iff)

lemma cache_inv_fetch:
  assumes "cache_inv g"
  shows "cache_inv (snd (fetch_model_config fp n g))"
proof (cases "fetched_model_configs_lock g")
  case True
  with assms show ?thesis by (simp add: fetch_model_config_def)
next
  case False
  show ?thesis
  proof (cases "map_of (fetched_model_configs g) n")
    case (Some c)
    with False assms show ?thesis
      by (simp add: fetch_model_config_def cache_inv_def)
  next
    case None
    then have nk: "n \<notin> fst ` set (fetched_model_configs g)"
      by (rule map_of_None_keys)
    with False assms have nf: "n \<notin> set (fetch_calls g)"
      by (auto simp: cache_inv_def)
    obtain res r' where fp: "fp (registry g) n = (res, r')"
      by (cases "fp (registry g) n")
    show ?thesis
    proof (cases res)
      case (Inl e)
      with False None fp nf assms show ?thesis
        by (simp add: fetch_model_config_def cache_inv_def)
    next
      case (Inr c)
      with False None fp nf assms show ?thesis
        by (auto simp: fetch_model_config_def cache_inv_def AList.distinct_update
            AList.dom_update)
    qed
  qed
qed

lemma cache_inv_fetch_all: "cache_inv g \<Longrightarrow> cache_inv (fetch_all fp ns g)"
  by (induction ns arbitrary: g) (simp_all add: cache_inv_fetch)

lemma distinct_filter_le_1: "distinct (map f xs) \<Longrightarrow> length (filter (\<lambda>e. f e = k) xs) \<le> 1"
  by (induction xs) (auto simp: filter_empty_conv image_iff)

lemma distinct_count_le_1: "distinct xs \<Longrightarrow> count_list xs k \<le> 1"
  by (induction xs) (auto simp: count_list_0_iff)

lemma fetch_returned_cases:
  assumes "fetch_model_config fp n g = (Returned c, g1)"
  shows "\<not> fetched_model_configs_lock g \<and> \<not> fetched_model_configs_lock g1 \<and>
         map_of (fetched_model_configs g1) n = Some c \<and>
         (fetch_calls g1 = fetch_calls g \<or> fetch_calls g1 = fetch_calls g @ [n])"
proof -
  from assms have free: "\<not> fetched_model_configs_lock g"
    by (auto simp: fetch_model_config_def)
  show ?thesis
  proof (cases "map_of (fetched_model_configs g) n")
    case (Some c')
    with free assms show ?thesis
      by (auto simp: fetch_model_config_def)
  next
    case None
    obtain res r' where fp: "fp (registry g) n = (res, r')"
      by (cases "fp (registry g) n")
    with free None assms show ?thesis
      by (cases res) (auto simp: fetch_model_config_def AList.update_conv')
  qed
qed

lemma fetch_cached:
  assumes "\<not> fetched_model_configs_lock g" "map_of (fetched_model_configs g) n = Some c"
  shows "fetch_model_config fp n g = (Returned c, g)"
  using assms by (simp add: fetch_model_config_def)

lemma update_uncached: "map_of al k = None \<Longrightarrow> AList.update k v al = al @ [(k, v)]"
  by (induction al) (auto split: if_splits)

lemma fetch_uncached:
  assumes "\<not> fetched_model_configs_lock g"
    and "map_of (fetched_model_configs g) n = None"
    and "fp (registry g) n = (Inr c, r')"
  shows "fetch_model_config fp n g =
     (Returned c,
      g\<lparr>registry := r', fetch_calls := fetch_calls g @ [n],
        fetched_model_configs := fetched_model_configs g @ [(n, c)]\<rparr>)"
  using assms by (simp add: fetch_model_config_def update_uncached)

text \<open>
  C1. When the lock is free, a call of \<^verbatim>\<open>fetch_model_config\<close> for a name that is not
  cached and whose underlying fetch returns a config returns that config, having
  fetched once and added the one entry to the cache, and a call for a cached name
  returns the cached config and changes nothing; so a second call for the same name
  returns the same config without an underlying fetch. More generally, whenever a
  call returns a config, a second call for the same name returns that same config,
  which is the cache's entry for the name, leaves the state as it is and so
  performs no underlying fetch, while the first call performed at most one. After
  any sequence of calls from the initial state the cache holds at most one entry
  per model name, and no name has been fetched from the registry more than once.
\<close>

theorem fetch_model_config_twice:
  "(\<not> fetched_model_configs_lock g \<and> map_of (fetched_model_configs g) n = None \<and>
    fp (registry g) n = (Inr c, r') \<longrightarrow>
      fetch_model_config fp n g =
        (Returned c,
         g\<lparr>registry := r', fetch_calls := fetch_calls g @ [n],
           fetched_model_configs := fetched_model_configs g @ [(n, c)]\<rparr>) \<and>
      fetch_model_config fp n
         (g\<lparr>registry := r', fetch_calls := fetch_calls g @ [n],
            fetched_model_configs := fetched_model_configs g @ [(n, c)]\<rparr>) =
        (Returned c,
         g\<lparr>registry := r', fetch_calls := fetch_calls g @ [n],
           fetched_model_configs := fetched_model_configs g @ [(n, c)]\<rparr>)) \<and>
   (\<not> fetched_model_configs_lock g \<and> map_of (fetched_model_configs g) n = Some c \<longrightarrow>
      fetch_model_config fp n g = (Returned c, g)) \<and>
   (fetch_model_config fp n g = (Returned c, g1) \<longrightarrow>
      fetch_model_config fp n g1 = (Returned c, g1) \<and>
      map_of (fetched_model_configs g1) n = Some c \<and>
      (fetch_calls g1 = fetch_calls g \<or> fetch_calls g1 = fetch_calls g @ [n])) \<and>
   length (filter (\<lambda>e. fst e = k)
     (fetched_model_configs (fetch_all fp ns (initial_globals r fs)))) \<le> 1 \<and>
   count_list (fetch_calls (fetch_all fp ns (initial_globals r fs))) k \<le> 1"
proof -
  let ?g' = "g\<lparr>registry := r', fetch_calls := fetch_calls g @ [n],
           fetched_model_configs := fetched_model_configs g @ [(n, c)]\<rparr>"
  have inv: "cache_inv (fetch_all fp ns (initial_globals r fs))"
    by (rule cache_inv_fetch_all) (rule cache_inv_initial)
  have twice: "fetch_model_config fp n h = (Returned c, h) \<and>
      map_of (fetched_model_configs h) n = Some c \<and>
      (fetch_calls h = fetch_calls g \<or> fetch_calls h = fetch_calls g @ [n])"
    if "fetch_model_config fp n g = (Returned c, h)" for h
    using fetch_returned_cases [OF that] by (simp add: fetch_cached)
  have fresh: "fetch_model_config fp n g = (Returned c, ?g') \<and>
      fetch_model_config fp n ?g' = (Returned c, ?g')"
    if "\<not> fetched_model_configs_lock g \<and> map_of (fetched_model_configs g) n = None \<and>
      fp (registry g) n = (Inr c, r')"
  proof -
    from that have 1: "fetch_model_config fp n g = (Returned c, ?g')"
      by (simp add: fetch_uncached)
    from twice [OF 1] have "fetch_model_config fp n ?g' = (Returned c, ?g')"
      by (rule conjunct1)
    with 1 show ?thesis by (rule conjI)
  qed
  have cached: "fetch_model_config fp n g = (Returned c, g)"
    if "\<not> fetched_model_configs_lock g \<and> map_of (fetched_model_configs g) n = Some c"
    using that by (simp add: fetch_cached)
  from inv have one_entry: "length (filter (\<lambda>e. fst e = k)
     (fetched_model_configs (fetch_all fp ns (initial_globals r fs)))) \<le> 1"
    unfolding cache_inv_def by (blast intro: distinct_filter_le_1)
  from inv
  have one_fetch: "count_list (fetch_calls (fetch_all fp ns (initial_globals r fs))) k \<le> 1"
    unfolding cache_inv_def by (blast intro: distinct_count_le_1)
  show ?thesis
  proof (intro conjI)
    show "\<not> fetched_model_configs_lock g \<and> map_of (fetched_model_configs g) n = None \<and>
      fp (registry g) n = (Inr c, r') \<longrightarrow>
      fetch_model_config fp n g = (Returned c, ?g') \<and>
      fetch_model_config fp n ?g' = (Returned c, ?g')"
      by (intro impI) (rule fresh, assumption)
  next
    show "\<not> fetched_model_configs_lock g \<and> map_of (fetched_model_configs g) n = Some c \<longrightarrow>
      fetch_model_config fp n g = (Returned c, g)"
      by (intro impI) (rule cached, assumption)
  next
    show "fetch_model_config fp n g = (Returned c, g1) \<longrightarrow>
      fetch_model_config fp n g1 = (Returned c, g1) \<and>
      map_of (fetched_model_configs g1) n = Some c \<and>
      (fetch_calls g1 = fetch_calls g \<or> fetch_calls g1 = fetch_calls g @ [n])"
      by (intro impI) (rule twice, assumption)
  next
    show "length (filter (\<lambda>e. fst e = k)
     (fetched_model_configs (fetch_all fp ns (initial_globals r fs)))) \<le> 1"
      by (rule one_entry)
  next
    show "count_list (fetch_calls (fetch_all fp ns (initial_globals r fs))) k \<le> 1"
      by (rule one_fetch)
  qed
qed

theorem fetch_model_config_twice_witness:
  "fetch_model_config llama_registry ''a'' (initial_globals 0 (\<lambda>p. False)) =
     (Returned \<lparr>model_type = ''llama'', torch_dtype = ''float16''\<rparr>,
      \<lparr>fetched_model_configs = [(''a'', \<lparr>model_type = ''llama'', torch_dtype = ''float16''\<rparr>)],
       fetched_model_configs_lock = False, registry = Suc 0, fetch_calls = [''a''],
       path_exists = (\<lambda>p. False), stdout = []\<rparr>) \<and>
   fetch_model_config llama_registry ''b''
      \<lparr>fetched_model_configs = [(''a'', \<lparr>model_type = ''llama'', torch_dtype = ''float16''\<rparr>)],
       fetched_model_configs_lock = False, registry = Suc 0, fetch_calls = [''a''],
       path_exists = (\<lambda>p. False), stdout = []\<rparr> =
     (Returned \<lparr>model_type = ''llama'', torch_dtype = ''float16''\<rparr>,
      \<lparr>fetched_model_configs = [(''a'', \<lparr>model_type = ''llama'', torch_dtype = ''float16''\<rparr>),
         (''b'', \<lparr>model_type = ''llama'', torch_dtype = ''float16''\<rparr>)],
       fetched_model_configs_lock = False, registry = Suc (Suc 0), fetch_calls = [''a'', ''b''],
       path_exists = (\<lambda>p. False), stdout = []\<rparr>) \<and>
   fetch_model_config llama_registry ''b''
      \<lparr>fetched_model_configs = [(''a'', \<lparr>model_type = ''llama'', torch_dtype = ''float16''\<rparr>),
         (''b'', \<lparr>model_type = ''llama'', torch_dtype = ''float16''\<rparr>)],
       fetched_model_configs_lock = False, registry = Suc (Suc 0), fetch_calls = [''a'', ''b''],
       path_exists = (\<lambda>p. False), stdout = []\<rparr> =
     (Returned \<lparr>model_type = ''llama'', torch_dtype = ''float16''\<rparr>,
      \<lparr>fetched_model_configs = [(''a'', \<lparr>model_type = ''llama'', torch_dtype = ''float16''\<rparr>),
         (''b'', \<lparr>model_type = ''llama'', torch_dtype = ''float16''\<rparr>)],
       fetched_model_configs_lock = False, registry = Suc (Suc 0), fetch_calls = [''a'', ''b''],
       path_exists = (\<lambda>p. False), stdout = []\<rparr>) \<and>
   fetch_model_config llama_registry ''a''
      \<lparr>fetched_model_configs = [(''a'', \<lparr>model_type = ''llama'', torch_dtype = ''float16''\<rparr>),
         (''b'', \<lparr>model_type = ''llama'', torch_dtype = ''float16''\<rparr>)],
       fetched_model_configs_lock = False, registry = Suc (Suc 0), fetch_calls = [''a'', ''b''],
       path_exists = (\<lambda>p. False), stdout = []\<rparr> =
     (Returned \<lparr>model_type = ''llama'', torch_dtype = ''float16''\<rparr>,
      \<lparr>fetched_model_configs = [(''a'', \<lparr>model_type = ''llama'', torch_dtype = ''float16''\<rparr>),
         (''b'', \<lparr>model_type = ''llama'', torch_dtype = ''float16''\<rparr>)],
       fetched_model_configs_lock = False, registry = Suc (Suc 0), fetch_calls = [''a'', ''b''],
       path_exists = (\<lambda>p. False), stdout = []\<rparr>)"
proof -
  let ?c = "\<lparr>model_type = ''llama'', torch_dtype = ''float16''\<rparr>"
  let ?ga = "\<lparr>fetched_model_configs = [(''a'', ?c)],
       fetched_model_configs_lock = False, registry = Suc 0, fetch_calls = [''a''],
       path_exists = (\<lambda>p. False), stdout = []\<rparr>"
  let ?gb = "\<lparr>fetched_model_configs = [(''a'', ?c), (''b'', ?c)],
       fetched_model_configs_lock = False, registry = Suc (Suc 0), fetch_calls = [''a'', ''b''],
       path_exists = (\<lambda>p. False), stdout = []\<rparr>"
  have ha: "\<not> fetched_model_configs_lock (initial_globals 0 (\<lambda>p. False)) \<and>
      map_of (fetched_model_configs (initial_globals 0 (\<lambda>p. False))) ''a'' = None \<and>
      llama_registry (registry (initial_globals 0 (\<lambda>p. False))) ''a'' = (Inr ?c, Suc 0)"
    by (simp add: initial_globals_def llama_registry_def)
  from fetch_model_config_twice [where fp = llama_registry and n = "''a''" and c = ?c
      and g = "initial_globals 0 (\<lambda>p. False)" and r' = "Suc 0",
      THEN conjunct1, THEN mp, OF ha]
  have 1: "fetch_model_config llama_registry ''a'' (initial_globals 0 (\<lambda>p. False)) =
      (Returned ?c, ?ga)"
    by (simp add: initial_globals_def)
  have hb: "\<not> fetched_model_configs_lock ?ga \<and>
      map_of (fetched_model_configs ?ga) ''b'' = None \<and>
      llama_registry (registry ?ga) ''b'' = (Inr ?c, Suc (Suc 0))"
    by (simp add: llama_registry_def)
  from fetch_model_config_twice [where fp = llama_registry and n = "''b''" and c = ?c
      and g = ?ga and r' = "Suc (Suc 0)", THEN conjunct1, THEN mp, OF hb]
  have 2: "fetch_model_config llama_registry ''b'' ?ga = (Returned ?c, ?gb)"
    and 3: "fetch_model_config llama_registry ''b'' ?gb = (Returned ?c, ?gb)"
    by simp_all
  have hc: "\<not> fetched_model_configs_lock ?gb \<and> map_of (fetched_model_configs ?gb) ''a'' = Some ?c"
    by simp
  from fetch_model_config_twice [where fp = llama_registry and n = "''a''" and c = ?c
      and g = ?gb, THEN conjunct2, THEN conjunct1, THEN mp, OF hc]
  have 4: "fetch_model_config llama_registry ''a'' ?gb = (Returned ?c, ?gb)" .
  from 1 2 3 4 show ?thesis by (intro conjI)
qed

text \<open>
  C9. When the lock is free, the name is not cached and the underlying fetch raises,
  \<^verbatim>\<open>fetch_model_config\<close> raises that exception and leaves the cache as it was, with
  the lock still held: whatever calls follow, each of them, for any model name,
  blocks and changes nothing.
\<close>

theorem fetch_failure_holds_lock:
  assumes "\<not> fetched_model_configs_lock g"
    and "map_of (fetched_model_configs g) n = None"
    and "fp (registry g) n = (Inl e, r')"
  shows "fst (fetch_model_config fp n g) = Raised e \<and>
         fetched_model_configs (snd (fetch_model_config fp n g)) = fetched_model_configs g \<and>
         fetched_model_configs_lock (snd (fetch_model_config fp n g)) \<and>
         fetch_all fp ns (snd (fetch_model_config fp n g)) = snd (fetch_model_config fp n g) \<and>
         fetch_model_config fp m (fetch_all fp ns (snd (fetch_model_config fp n g))) =
           (Blocked, snd (fetch_model_config fp n g))"
proof -
  let ?g' = "snd (fetch_model_config fp n g)"
  from assms have 1: "fst (fetch_model_config fp n g) = Raised e"
    and 2: "fetched_model_configs ?g' = fetched_model_configs g"
    and 3: "fetched_model_configs_lock ?g'"
    by (simp_all add: fetch_model_config_def)
  have 4: "fetch_all fp ns h = h" if "fetched_model_configs_lock h" for h
    using that by (induction ns) (simp_all add: fetch_model_config_def)
  from 3 have 5: "fetch_model_config fp m ?g' = (Blocked, ?g')"
    by (simp add: fetch_model_config_def)
  from 1 2 3 4 [OF 3] 5 show ?thesis by simp
qed

theorem fetch_failure_holds_lock_witness:
  "fst (fetch_model_config offline_registry ''m'' (initial_globals 0 (\<lambda>p. False))) =
     Raised (PyExn ''OSError'' (Some ''offline'')) \<and>
   fetch_model_config offline_registry ''other''
     (fetch_all offline_registry [''m'', ''x'']
        (snd (fetch_model_config offline_registry ''m'' (initial_globals 0 (\<lambda>p. False))))) =
     (Blocked, snd (fetch_model_config offline_registry ''m'' (initial_globals 0 (\<lambda>p. False))))"
proof -
  have free: "\<not> fetched_model_configs_lock (initial_globals 0 (\<lambda>p. False))"
    and uncached: "map_of (fetched_model_configs (initial_globals 0 (\<lambda>p. False))) ''m'' = None"
    and fails: "offline_registry (registry (initial_globals 0 (\<lambda>p. False))) ''m'' =
      (Inl (PyExn ''OSError'' (Some ''offline'')), Suc 0)"
    by (simp_all add: initial_globals_def offline_registry_def)
  from fetch_failure_holds_lock [where fp = offline_registry and ns = "[''m'', ''x'']"
      and m = "''other''", OF free uncached fails]
  show ?thesis by blast
qed

text \<open>
  C2. A model name that contains "starchat" gets \<open>["tgi", "hf_transformers"]\<close>, and the
  config is not fetched. For any other name whose config is fetched,
  the result is \<open>["vllm", "tgi", "hf_transformers"]\<close> when the config's model type is one
  of the seven of the allow-list, and \<open>[]\<close> when it is not.
\<close>

theorem get_supported_inference_backends_cases:
  "((\<exists>ps ss. model_name = ps @ ''starchat'' @ ss) \<longrightarrow>
      get_supported_inference_backends fp model_name g =
        (Returned [''tgi'', ''hf_transformers''], g)) \<and>
   (\<not> (\<exists>ps ss. model_name = ps @ ''starchat'' @ ss) \<and>
    fetch_model_config fp model_name g = (Returned c, g') \<longrightarrow>
      get_supported_inference_backends fp model_name g =
        (Returned
           (if model_type c \<in> {''llama'', ''gpt_neox'', ''gpt_bigcode'', ''mpt'',
                                ''RefinedWeb'', ''RefinedWebModel'', ''falcon''}
            then [''vllm'', ''tgi'', ''hf_transformers''] else []), g'))"
proof -
  have sub: "sublist ''starchat'' model_name \<longleftrightarrow> (\<exists>ps ss. model_name = ps @ ''starchat'' @ ss)"
    by (simp only: sublist_def)
  have allow: "set generally_supported_model_types =
      {''llama'', ''gpt_neox'', ''gpt_bigcode'', ''mpt'', ''RefinedWeb'', ''RefinedWebModel'',
       ''falcon''}"
    by (simp add: generally_supported_model_types_def)
  show ?thesis
    unfolding get_supported_inference_backends_def sub allow
    by (auto simp del: insert_iff)
qed

lemma not_sublist_short: "length ys < length xs \<Longrightarrow> \<not> sublist xs ys"
  by (auto simp: sublist_def)

theorem get_supported_inference_backends_cases_witness:
  "(\<exists>ps ss. ''HuggingFaceH4/starchat-beta'' = ps @ ''starchat'' @ ss) \<and>
   get_supported_inference_backends llama_registry ''HuggingFaceH4/starchat-beta''
      (initial_globals 0 (\<lambda>p. False)) =
     (Returned [''tgi'', ''hf_transformers''], initial_globals 0 (\<lambda>p. False)) \<and>
   \<not> (\<exists>ps ss. ''m'' = ps @ ''starchat'' @ ss) \<and>
   fst (get_supported_inference_backends llama_registry ''m''
      (initial_globals 0 (\<lambda>p. False))) = Returned [''vllm'', ''tgi'', ''hf_transformers'']"
proof -
  have a: "\<exists>ps ss. ''HuggingFaceH4/starchat-beta'' = ps @ ''starchat'' @ ss"
  proof (intro exI)
    show "''HuggingFaceH4/starchat-beta'' = ''HuggingFaceH4/'' @ ''starchat'' @ ''-beta''"
      by simp
  qed
  have b: "\<not> (\<exists>ps ss. ''m'' = ps @ ''starchat'' @ ss)"
    using not_sublist_short [of "''m''" "''starchat''"] by (simp add: sublist_def)
  have c: "fetch_model_config llama_registry ''m'' (initial_globals 0 (\<lambda>p. False)) =
     (Returned \<lparr>model_type = ''llama'', torch_dtype = ''float16''\<rparr>,
      \<lparr>fetched_model_configs = [(''m'', \<lparr>model_type = ''llama'', torch_dtype = ''float16''\<rparr>)],
       fetched_model_configs_lock = False, registry = Suc 0, fetch_calls = [''m''],
       path_exists = (\<lambda>p. False), stdout = []\<rparr>)"
    by (simp add: fetch_model_config_def initial_globals_def llama_registry_def)
  from a get_supported_inference_backends_cases
    [of "''HuggingFaceH4/starchat-beta''" llama_registry "initial_globals 0 (\<lambda>p. False)"]
  have 1: "get_supported_inference_backends llama_registry ''HuggingFaceH4/starchat-beta''
      (initial_globals 0 (\<lambda>p. False)) =
     (Returned [''tgi'', ''hf_transformers''], initial_globals 0 (\<lambda>p. False))"
    by blast
  from b c get_supported_inference_backends_cases
    [of "''m''" llama_registry "initial_globals 0 (\<lambda>p. False)"
      "\<lparr>model_type = ''llama'', torch_dtype = ''float16''\<rparr>"]
  have 2: "fst (get_supported_inference_backends llama_registry ''m''
      (initial_globals 0 (\<lambda>p. False))) = Returned [''vllm'', ''tgi'', ''hf_transformers'']"
    by simp
  from a b 1 2 show ?thesis by blast
qed




lemma model_classes_None_iff:
  "map_of model_classes mtype = None \<longleftrightarrow>
     mtype \<notin> {''debug'', ''openai'', ''fastchat'', ''open-assistant'', ''guanaco'',
       ''falcon-instruct'', ''alpaca-without-prefix'', ''alpaca-with-prefix'', ''chatml'',
       ''starchat'', ''llama2-chat'', ''stable-beluga'', ''dolphin'', ''openchat-llama2-v1'',
       ''wizard-lm''}"
  by (simp add: map_of_eq_None_iff model_classes_def)

lemma find_Some_member: "find P xs = Some x \<Longrightarrow> x \<in> set xs \<and> P x"
  by (induction xs) (auto split: if_splits)

lemma find_None_disjoint:
  "find (\<lambda>k. k \<in> set (map fst kw1)) (map fst kw2) = None \<longleftrightarrow>
     set (map fst kw1) \<inter> set (map fst kw2) = {}"
  by (simp only: find_None_iff) blast

lemma call_with_kwargs_disjoint:
  "set (map fst kw1) \<inter> set (map fst kw2) = {} \<Longrightarrow>
     call_with_kwargs f args kw1 kw2 = f args (kw1 @ kw2)"
  using find_None_disjoint [of kw1 kw2] by (simp add: call_with_kwargs_def)

lemma call_with_kwargs_clash:
  assumes "set (map fst kw1) \<inter> set (map fst kw2) \<noteq> {}"
  shows "\<exists>k \<in> set (map fst kw1) \<inter> set (map fst kw2).
     call_with_kwargs f args kw1 kw2 =
       Inl (PyExn ''TypeError'' (Some (''got multiple values for keyword argument '' @ k)))"
proof -
  have "find (\<lambda>k. k \<in> set (map fst kw1)) (map fst kw2) \<noteq> None"
  proof
    assume "find (\<lambda>k. k \<in> set (map fst kw1)) (map fst kw2) = None"
    then have "set (map fst kw1) \<inter> set (map fst kw2) = {}"
      by (rule iffD1 [OF find_None_disjoint])
    with assms show False by (rule notE)
  qed
  then obtain k where k: "find (\<lambda>k. k \<in> set (map fst kw1)) (map fst kw2) = Some k"
    by (rule not_None_eq [THEN iffD1, THEN exE])
  from find_Some_member [OF k] have "k \<in> set (map fst kw1) \<inter> set (map fst kw2)"
    by (simp only: Int_iff)
  moreover from k have "call_with_kwargs f args kw1 kw2 =
       Inl (PyExn ''TypeError'' (Some (''got multiple values for keyword argument '' @ k)))"
    by (simp add: call_with_kwargs_def)
  ultimately show ?thesis by (rule bexI [rotated])
qed

text \<open>
  C4, as stated, fails: with the known type \<open>"chatml"\<close> and a keyword that both
  \<open>model_args\<close> and the extra keyword arguments give, the call raises \<^verbatim>\<open>TypeError\<close>
  and no instance is constructed, although the class accepts every argument.
\<close>

theorem create_model_duplicate_keyword:
  "create_model recording_class ''chatml'' ''m'' [(''a'', PyStr ''x'')] [(''a'', PyStr ''y'')] =
     Raised (PyExn ''TypeError'' (Some ''got multiple values for keyword argument a''))"
  by (simp add: create_model_def model_classes_def call_with_kwargs_def lift_result_def)

text \<open>
  C4, amended. A model type outside the table of fifteen names raises an \<^verbatim>\<open>Exception\<close>.
  For a type of the table, \<open>"chatml"\<close> being that of class \<open>ChatML\<close>: when no keyword is
  both in \<open>model_args\<close> and among the extra keyword arguments, the class of the table
  is called with the model name as its one positional argument and the entries of
  both as keyword arguments, and the instance it returns is returned (an exception
  it raises is raised); when a keyword is in both, \<^verbatim>\<open>TypeError\<close> is raised for such a
  keyword.
\<close>

theorem create_model_dispatch:
  "(mtype \<notin> {''debug'', ''openai'', ''fastchat'', ''open-assistant'', ''guanaco'',
       ''falcon-instruct'', ''alpaca-without-prefix'', ''alpaca-with-prefix'', ''chatml'',
       ''starchat'', ''llama2-chat'', ''stable-beluga'', ''dolphin'', ''openchat-llama2-v1'',
       ''wizard-lm''} \<longrightarrow>
      create_model construct mtype model_name model_args kwargs =
        Raised (PyExn ''Exception'' (Some (unknown_model_type_message mtype)))) \<and>
   map_of model_classes ''chatml'' = Some ChatML \<and>
   (map_of model_classes mtype = Some c \<and>
    set (map fst model_args) \<inter> set (map fst kwargs) = {} \<longrightarrow>
      create_model construct mtype model_name model_args kwargs =
        lift_result (construct c [PyStr model_name] (model_args @ kwargs)) \<and>
      (\<forall>i. construct c [PyStr model_name] (model_args @ kwargs) = Inr i \<longrightarrow>
         create_model construct mtype model_name model_args kwargs = Returned i)) \<and>
   (map_of model_classes mtype = Some c \<and>
    set (map fst model_args) \<inter> set (map fst kwargs) \<noteq> {} \<longrightarrow>
      (\<exists>k \<in> set (map fst model_args) \<inter> set (map fst kwargs).
         create_model construct mtype model_name model_args kwargs =
           Raised (PyExn ''TypeError''
             (Some (''got multiple values for keyword argument '' @ k)))))"
proof -
  have unknown: "create_model construct mtype model_name model_args kwargs =
        Raised (PyExn ''Exception'' (Some (unknown_model_type_message mtype)))"
    if "map_of model_classes mtype = None"
    using that by (simp add: create_model_def)
  have chatml: "map_of model_classes ''chatml'' = Some ChatML"
    by (simp add: model_classes_def)
  have ok: "create_model construct mtype model_name model_args kwargs =
        lift_result (construct c [PyStr model_name] (model_args @ kwargs))"
    if "map_of model_classes mtype = Some c"
      "set (map fst model_args) \<inter> set (map fst kwargs) = {}"
    using that by (simp add: create_model_def call_with_kwargs_disjoint)
  have clash: "\<exists>k \<in> set (map fst model_args) \<inter> set (map fst kwargs).
         create_model construct mtype model_name model_args kwargs =
           Raised (PyExn ''TypeError''
             (Some (''got multiple values for keyword argument '' @ k)))"
    if "map_of model_classes mtype = Some c"
      "set (map fst model_args) \<inter> set (map fst kwargs) \<noteq> {}"
  proof -
    from call_with_kwargs_clash [OF that(2), of "construct c" "[PyStr model_name]"]
    obtain k where "k \<in> set (map fst model_args) \<inter> set (map fst kwargs)"
      and "call_with_kwargs (construct c) [PyStr model_name] model_args kwargs =
        Inl (PyExn ''TypeError'' (Some (''got multiple values for keyword argument '' @ k)))"
      by blast
    with that(1) show ?thesis
      by (auto simp: create_model_def lift_result_def)
  qed
  show ?thesis
  proof (intro conjI impI allI)
    assume "mtype \<notin> {''debug'', ''openai'', ''fastchat'', ''open-assistant'', ''guanaco'',
       ''falcon-instruct'', ''alpaca-without-prefix'', ''alpaca-with-prefix'', ''chatml'',
       ''starchat'', ''llama2-chat'', ''stable-beluga'', ''dolphin'', ''openchat-llama2-v1'',
       ''wizard-lm''}"
    then have "map_of model_classes mtype = None"
      by (rule iffD2 [OF model_classes_None_iff])
    then show "create_model construct mtype model_name model_args kwargs =
        Raised (PyExn ''Exception'' (Some (unknown_model_type_message mtype)))"
      by (rule unknown)
  next
    show "map_of model_classes ''chatml'' = Some ChatML" by (rule chatml)
  next
    assume "map_of model_classes mtype = Some c \<and>
      set (map fst model_args) \<inter> set (map fst kwargs) = {}"
    then show "create_model construct mtype model_name model_args kwargs =
        lift_result (construct c [PyStr model_name] (model_args @ kwargs))"
      using ok by blast
  next
    fix i
    assume "map_of model_classes mtype = Some c \<and>
      set (map fst model_args) \<inter> set (map fst kwargs) = {}"
      and "construct c [PyStr model_name] (model_args @ kwargs) = Inr i"
    then show "create_model construct mtype model_name model_args kwargs = Returned i"
      using ok by (simp add: lift_result_def)
  next
    assume "map_of model_classes mtype = Some c \<and>
      set (map fst model_args) \<inter> set (map fst kwargs) \<noteq> {}"
    then show "\<exists>k \<in> set (map fst model_args) \<inter> set (map fst kwargs).
         create_model construct mtype model_name model_args kwargs =
           Raised (PyExn ''TypeError''
             (Some (''got multiple values for keyword argument '' @ k)))"
      using clash by blast
  qed
qed

theorem create_model_dispatch_witness:
  "create_model recording_class ''unknown-type'' ''m'' [] [] =
     Raised (PyExn ''Exception'' (Some (unknown_model_type_message ''unknown-type''))) \<and>
   create_model recording_class ''chatml'' ''m'' [(''a'', PyStr ''x'')] [(''b'', PyStr ''y'')] =
     Returned (ChatML, [PyStr ''m''], [(''a'', PyStr ''x''), (''b'', PyStr ''y'')]) \<and>
   create_model recording_class ''chatml'' ''m'' [(''a'', PyStr ''x'')] [(''a'', PyStr ''y'')] =
     Raised (PyExn ''TypeError'' (Some ''got multiple values for keyword argument a''))"
proof -
  have 1: "create_model recording_class ''unknown-type'' ''m'' [] [] =
     Raised (PyExn ''Exception'' (Some (unknown_model_type_message ''unknown-type'')))"
    using create_model_dispatch [of "''unknown-type''" recording_class "''m''" "[]" "[]"]
    by simp
  have c: "map_of model_classes ''chatml'' = Some ChatML"
    by (simp add: model_classes_def)
  have 2: "create_model recording_class ''chatml'' ''m'' [(''a'', PyStr ''x'')] [(''b'', PyStr ''y'')] =
     Returned (ChatML, [PyStr ''m''], [(''a'', PyStr ''x''), (''b'', PyStr ''y'')])"
    using c create_model_dispatch [of "''chatml''" recording_class "''m''"
        "[(''a'', PyStr ''x'')]" "[(''b'', PyStr ''y'')]" ChatML]
    by (simp add: recording_class_def lift_result_def)
  have 3: "create_model recording_class ''chatml'' ''m'' [(''a'', PyStr ''x'')] [(''a'', PyStr ''y'')] =
     Raised (PyExn ''TypeError'' (Some ''got multiple values for keyword argument a''))"
    using c create_model_dispatch [of "''chatml''" recording_class "''m''"
        "[(''a'', PyStr ''x'')]" "[(''a'', PyStr ''y'')]" ChatML]
    by simp
  from 1 2 3 show ?thesis by blast
qed

lemma collect_map_Inr: "collect (map Inr vs) = Returned vs"
  by (induction vs) simp_all

lemma collect_ReturnedD: "collect rs = Returned vs \<Longrightarrow> rs = map Inr vs"
proof (induction rs arbitrary: vs rule: collect.induct)
  case 1
  then show ?case by simp
next
  case (2 e rs)
  then show ?case by simp
next
  case (3 v rs)
  from "3.prems" obtain vs' where c: "collect rs = Returned vs'" and vs: "vs = v # vs'"
    by (cases "collect rs") simp_all
  from "3.IH" [OF c] vs show ?case by simp
qed

lemma collect_Returned_iff: "collect rs = Returned vs \<longleftrightarrow> rs = map Inr vs"
proof
  assume "collect rs = Returned vs"
  then show "rs = map Inr vs" by (rule collect_ReturnedD)
next
  assume "rs = map Inr vs"
  then show "collect rs = Returned vs" by (simp only: collect_map_Inr)
qed

lemma call_with_kwargs_no_kw: "call_with_kwargs f args [] kw = f args kw"
  using call_with_kwargs_disjoint [of "[]" kw f args] by simp

lemma compute_reply_list:
  "compute_reply m (PyList l) ev = reply m [PyList l] [(''stop_event'', ev)]"
  by (simp add: compute_reply_def call_with_kwargs_no_kw)

lemma compute_reply_dict:
  "compute_reply m (PyDict d) ev = call_with_kwargs (reply m) [] d [(''stop_event'', ev)]"
  by (simp add: compute_reply_def)

text \<open>
  C5. For the empty list of conversations the result is the empty list, and the
  thread-pool helper has not been invoked.
\<close>

theorem compute_model_replies_empty:
  "compute_model_replies m [] progress_bar_description invocations =
     (Returned [], invocations)"
  by (simp add: compute_model_replies_def)

text \<open>
  C6. For a non-empty list of conversations, each a list or a dict, the helper is
  invoked once, and with its stop signal \<open>ev\<close>: when the call returns replies, there
  are as many as conversations, and the reply at each position is what
  \<^verbatim>\<open>model.reply(conversation, stop_event=ev)\<close> returned for the list at that position, or
  what \<^verbatim>\<open>model.reply(**conversation, stop_event=ev)\<close> returned for the dict at that
  position; and the call does return when each of these calls of \<^verbatim>\<open>reply\<close> returns.
\<close>

theorem compute_model_replies_dispatch:
  assumes "conversations \<noteq> []"
    and "\<forall>c \<in> set conversations. (\<exists>l. c = PyList l) \<or> (\<exists>d. c = PyDict d)"
  shows
    "snd (compute_model_replies m conversations desc n) = Suc n \<and>
     (\<forall>rs. fst (compute_model_replies m conversations desc n) = Returned rs \<longrightarrow>
        length rs = length conversations \<and>
        (\<forall>i < length conversations.
           (\<forall>l. conversations ! i = PyList l \<longrightarrow>
              reply m [conversations ! i] [(''stop_event'', PyObj n)] = Inr (rs ! i)) \<and>
           (\<forall>d. conversations ! i = PyDict d \<longrightarrow>
              call_with_kwargs (reply m) [] d [(''stop_event'', PyObj n)] = Inr (rs ! i)))) \<and>
     ((\<forall>c \<in> set conversations.
         (\<forall>l. c = PyList l \<longrightarrow> (\<exists>v. reply m [c] [(''stop_event'', PyObj n)] = Inr v)) \<and>
         (\<forall>d. c = PyDict d \<longrightarrow>
            (\<exists>v. call_with_kwargs (reply m) [] d [(''stop_event'', PyObj n)] = Inr v))) \<longrightarrow>
      (\<exists>rs. fst (compute_model_replies m conversations desc n) = Returned rs))"
proof -
  let ?f = "\<lambda>c. compute_reply m c (PyObj n)"
  from assms(1) have unfold:
    "compute_model_replies m conversations desc n = (collect (map ?f conversations), Suc n)"
    by (simp add: compute_model_replies_def process_with_thread_pool_def)
  have results: "length rs = length conversations \<and>
        (\<forall>i < length conversations.
           (\<forall>l. conversations ! i = PyList l \<longrightarrow>
              reply m [conversations ! i] [(''stop_event'', PyObj n)] = Inr (rs ! i)) \<and>
           (\<forall>d. conversations ! i = PyDict d \<longrightarrow>
              call_with_kwargs (reply m) [] d [(''stop_event'', PyObj n)] = Inr (rs ! i)))"
    if "collect (map ?f conversations) = Returned rs" for rs
  proof -
    from that have eq: "map ?f conversations = map Inr rs"
      by (simp only: collect_Returned_iff)
    from arg_cong [OF eq, of length] have len: "length rs = length conversations"
      by simp
    have nth: "?f (conversations ! i) = Inr (rs ! i)" if "i < length conversations" for i
    proof -
      from eq have "map ?f conversations ! i = map Inr rs ! i" by (rule arg_cong)
      with that len show ?thesis by simp
    qed
    show ?thesis
    proof (intro conjI allI impI)
      show "length rs = length conversations" by (rule len)
    next
      fix i l
      assume "i < length conversations" "conversations ! i = PyList l"
      with nth [of i] show "reply m [conversations ! i] [(''stop_event'', PyObj n)] = Inr (rs ! i)"
        by (simp add: compute_reply_list)
    next
      fix i d
      assume "i < length conversations" "conversations ! i = PyDict d"
      with nth [of i]
      show "call_with_kwargs (reply m) [] d [(''stop_event'', PyObj n)] = Inr (rs ! i)"
        by (simp add: compute_reply_dict)
    qed
  qed
  have total: "\<exists>rs. collect (map ?f conversations) = Returned rs"
    if all: "\<forall>c \<in> set conversations.
         (\<forall>l. c = PyList l \<longrightarrow> (\<exists>v. reply m [c] [(''stop_event'', PyObj n)] = Inr v)) \<and>
         (\<forall>d. c = PyDict d \<longrightarrow>
            (\<exists>v. call_with_kwargs (reply m) [] d [(''stop_event'', PyObj n)] = Inr v))"
  proof -
    have "\<forall>c \<in> set conversations. \<exists>v. ?f c = Inr v"
    proof
      fix c assume c: "c \<in> set conversations"
      with assms(2) consider l where "c = PyList l" | d where "c = PyDict d" by blast
      then show "\<exists>v. ?f c = Inr v"
      proof cases
        case 1
        with all c show ?thesis by (simp add: compute_reply_list)
      next
        case 2
        with all c show ?thesis by (simp add: compute_reply_dict)
      qed
    qed
    then have "\<exists>rs. map ?f conversations = map Inr rs"
    proof (induction conversations)
      case Nil
      then show ?case by simp
    next
      case (Cons c cs)
      then obtain v rs where "?f c = Inr v" "map ?f cs = map Inr rs" by auto
      then have "map ?f (c # cs) = map Inr (v # rs)" by simp
      then show ?case by blast
    qed
    then show ?thesis by (simp only: collect_Returned_iff)
  qed
  show ?thesis
    unfolding unfold fst_conv snd_conv
  proof (intro conjI)
    show "Suc n = Suc n" by (rule refl)
  next
    show "\<forall>rs. collect (map ?f conversations) = Returned rs \<longrightarrow>
        length rs = length conversations \<and>
        (\<forall>i < length conversations.
           (\<forall>l. conversations ! i = PyList l \<longrightarrow>
              reply m [conversations ! i] [(''stop_event'', PyObj n)] = Inr (rs ! i)) \<and>
           (\<forall>d. conversations ! i = PyDict d \<longrightarrow>
              call_with_kwargs (reply m) [] d [(''stop_event'', PyObj n)] = Inr (rs ! i)))"
      by (intro allI impI) (rule results, assumption)
  next
    show "(\<forall>c \<in> set conversations.
         (\<forall>l. c = PyList l \<longrightarrow> (\<exists>v. reply m [c] [(''stop_event'', PyObj n)] = Inr v)) \<and>
         (\<forall>d. c = PyDict d \<longrightarrow>
            (\<exists>v. call_with_kwargs (reply m) [] d [(''stop_event'', PyObj n)] = Inr v))) \<longrightarrow>
      (\<exists>rs. collect (map ?f conversations) = Returned rs)"
      by (intro impI) (rule total, assumption)
  qed
qed

theorem compute_model_replies_dispatch_witness:
  "compute_model_replies echo_model
      [PyList [PyStr ''hi''], PyDict [(''conversation'', PyList [])]] None 0 =
     (Returned
        [PyList [PyList [PyStr ''hi''], PyDict [(''stop_event'', PyObj 0)]],
         PyList [PyDict [(''conversation'', PyList []), (''stop_event'', PyObj 0)]]],
      Suc 0) \<and>
   reply echo_model [PyList [PyStr ''hi'']] [(''stop_event'', PyObj 0)] =
     Inr (PyList [PyList [PyStr ''hi''], PyDict [(''stop_event'', PyObj 0)]]) \<and>
   call_with_kwargs (reply echo_model) [] [(''conversation'', PyList [])]
       [(''stop_event'', PyObj 0)] =
     Inr (PyList [PyDict [(''conversation'', PyList []), (''stop_event'', PyObj 0)]])"
proof -
  let ?cs = "[PyList [PyStr ''hi''], PyDict [(''conversation'', PyList [])]]"
  let ?rs = "[PyList [PyList [PyStr ''hi''], PyDict [(''stop_event'', PyObj 0)]],
         PyList [PyDict [(''conversation'', PyList []), (''stop_event'', PyObj 0)]]]"
  have ne: "?cs \<noteq> []" by simp
  have shape: "\<forall>c \<in> set ?cs. (\<exists>l. c = PyList l) \<or> (\<exists>d. c = PyDict d)" by simp
  have run: "compute_model_replies echo_model ?cs None 0 = (Returned ?rs, Suc 0)"
    by (simp add: compute_model_replies_def process_with_thread_pool_def compute_reply_def
        call_with_kwargs_def echo_model_def)
  note T = compute_model_replies_dispatch [OF ne shape, of echo_model None 0]
  from T have "\<forall>rs. fst (compute_model_replies echo_model ?cs None 0) = Returned rs \<longrightarrow>
        length rs = length ?cs \<and>
        (\<forall>i < length ?cs.
           (\<forall>l. ?cs ! i = PyList l \<longrightarrow>
              reply echo_model [?cs ! i] [(''stop_event'', PyObj 0)] = Inr (rs ! i)) \<and>
           (\<forall>d. ?cs ! i = PyDict d \<longrightarrow>
              call_with_kwargs (reply echo_model) [] d [(''stop_event'', PyObj 0)] =
                Inr (rs ! i)))"
    by (rule conjunct2 [THEN conjunct1])
  then have each: "\<forall>i < length ?cs.
           (\<forall>l. ?cs ! i = PyList l \<longrightarrow>
              reply echo_model [?cs ! i] [(''stop_event'', PyObj 0)] = Inr (?rs ! i)) \<and>
           (\<forall>d. ?cs ! i = PyDict d \<longrightarrow>
              call_with_kwargs (reply echo_model) [] d [(''stop_event'', PyObj 0)] =
                Inr (?rs ! i))"
    using run by simp
  from each [rule_format, of 0] have first:
    "reply echo_model [PyList [PyStr ''hi'']] [(''stop_event'', PyObj 0)] =
       Inr (PyList [PyList [PyStr ''hi''], PyDict [(''stop_event'', PyObj 0)]])"
    by simp
  from each [rule_format, of 1] have second:
    "call_with_kwargs (reply echo_model) [] [(''conversation'', PyList [])]
       [(''stop_event'', PyObj 0)] =
     Inr (PyList [PyDict [(''conversation'', PyList []), (''stop_event'', PyObj 0)]])"
    by simp
  from run first second show ?thesis by (intro conjI)
qed

text \<open>
  C7, as stated, fails in its last part: for a conversation that is neither a list
  nor a dict the exception that reaches the caller carries a message, the
  interpreter's own.
\<close>

theorem malformed_conversation_message:
  "compute_reply echo_model (PyInt 0) (PyObj 0) =
     Inl (PyExn ''RuntimeError'' (Some ''No active exception to reraise'')) \<and>
   fst (compute_model_replies echo_model [PyInt 0] None 0) =
     Raised (PyExn ''RuntimeError'' (Some ''No active exception to reraise''))"
  by (simp add: compute_reply_def compute_model_replies_def process_with_thread_pool_def)

text \<open>
  C7, amended. An unknown model type raises an \<^verbatim>\<open>Exception\<close> whose message is
  \<open>Unknown model type "\<close>, the type and a closing quote; a model with no available
  backend raises an \<^verbatim>\<open>Exception\<close> whose message is
  \<open>No inference backend supported for model "\<close> and the model path; and for a
  conversation that is neither a list nor a dict the bare \<^verbatim>\<open>raise\<close> gives no exception
  of its own, so that the interpreter's \<^verbatim>\<open>RuntimeError\<close> with the message
  \<open>No active exception to reraise\<close> is raised, which says nothing of the conversation.
\<close>

theorem exception_taxonomy:
  "(map_of model_classes mtype = None \<longrightarrow>
      create_model construct mtype model_name model_args kwargs =
        Raised (PyExn ''Exception''
          (Some (''Unknown model type '' @ [CHR 0x22] @ mtype @ [CHR 0x22])))) \<and>
   (get_supported_inference_backends fp model_path g = (Returned bs, g1) \<and>
    ''vllm'' \<notin> set bs \<and> ''hf_transformers'' \<notin> set bs \<and>
    (''tgi'' \<in> set bs \<longrightarrow> \<not> path_exists g1 ''text-generation-inference'') \<longrightarrow>
      fst (get_inference_backend fp model_path g) =
        Raised (PyExn ''Exception''
          (Some (''No inference backend supported for model '' @ [CHR 0x22] @ model_path)))) \<and>
   ((\<forall>l. conversation \<noteq> PyList l) \<and> (\<forall>d. conversation \<noteq> PyDict d) \<longrightarrow>
      compute_reply m conversation stop_event =
        Inl (PyExn ''RuntimeError'' (Some ''No active exception to reraise'')))"
proof (intro conjI impI)
  assume "map_of model_classes mtype = None"
  then show "create_model construct mtype model_name model_args kwargs =
        Raised (PyExn ''Exception''
          (Some (''Unknown model type '' @ [CHR 0x22] @ mtype @ [CHR 0x22])))"
    by (simp add: create_model_def unknown_model_type_message_def)
next
  assume a: "get_supported_inference_backends fp model_path g = (Returned bs, g1) \<and>
    ''vllm'' \<notin> set bs \<and> ''hf_transformers'' \<notin> set bs \<and>
    (''tgi'' \<in> set bs \<longrightarrow> \<not> path_exists g1 ''text-generation-inference'')"
  show "fst (get_inference_backend fp model_path g) =
        Raised (PyExn ''Exception''
          (Some (''No inference backend supported for model '' @ [CHR 0x22] @ model_path)))"
  proof (cases "''tgi'' \<in> set bs")
    case True
    with a show ?thesis
      by (simp add: get_inference_backend_def is_tgi_installed_def no_backend_message_def)
  next
    case False
    with a show ?thesis
      by (simp add: get_inference_backend_def is_tgi_installed_def no_backend_message_def)
  qed
next
  assume "(\<forall>l. conversation \<noteq> PyList l) \<and> (\<forall>d. conversation \<noteq> PyDict d)"
  then show "compute_reply m conversation stop_event =
        Inl (PyExn ''RuntimeError'' (Some ''No active exception to reraise''))"
    by (cases conversation) (simp_all add: compute_reply_def)
qed

theorem exception_taxonomy_witness:
  "create_model recording_class ''unknown-type'' ''m'' [] [] =
     Raised (PyExn ''Exception'' (Some (''Unknown model type '' @ [CHR 0x22] @ ''unknown-type'' @ [CHR 0x22]))) \<and>
   fst (get_inference_backend bert_registry ''m'' (initial_globals 0 (\<lambda>p. False))) =
     Raised (PyExn ''Exception''
       (Some (''No inference backend supported for model '' @ [CHR 0x22] @ ''m''))) \<and>
   compute_reply echo_model (PyStr ''hello'') (PyObj 0) =
     Inl (PyExn ''RuntimeError'' (Some ''No active exception to reraise''))"
proof -
  have u: "map_of model_classes ''unknown-type'' = None"
    by (simp add: model_classes_def)
  have ns: "\<not> sublist ''starchat'' ''m''"
    by (rule not_sublist_short) simp
  have b: "get_supported_inference_backends bert_registry ''m'' (initial_globals 0 (\<lambda>p. False)) =
      (Returned [],
       snd (fetch_model_config bert_registry ''m'' (initial_globals 0 (\<lambda>p. False))))"
    using ns
    by (simp add: get_supported_inference_backends_def fetch_model_config_def
        initial_globals_def bert_registry_def generally_supported_model_types_def)
  note T = exception_taxonomy [of "''unknown-type''" recording_class "''m''" "[]" "[]"
      bert_registry "''m''" "initial_globals 0 (\<lambda>p. False)" "[]"
      "snd (fetch_model_config bert_registry ''m'' (initial_globals 0 (\<lambda>p. False)))"
      "PyStr ''hello''" echo_model "PyObj 0"]
  from T u have 1: "create_model recording_class ''unknown-type'' ''m'' [] [] =
     Raised (PyExn ''Exception'' (Some (''Unknown model type '' @ [CHR 0x22] @ ''unknown-type'' @ [CHR 0x22])))"
    by (simp only: simp_thms)
  from T [THEN conjunct2, THEN conjunct1] b
  have 2: "fst (get_inference_backend bert_registry ''m'' (initial_globals 0 (\<lambda>p. False))) =
     Raised (PyExn ''Exception''
       (Some (''No inference backend supported for model '' @ [CHR 0x22] @ ''m'')))"
    by simp
  from T [THEN conjunct2, THEN conjunct2]
  have 3: "compute_reply echo_model (PyStr ''hello'') (PyObj 0) =
     Inl (PyExn ''RuntimeError'' (Some ''No active exception to reraise''))"
    by simp
  from 1 2 3 show ?thesis by (intro conjI)
qed

lemma unload_loop_invoke_each:
  "unload_loop fns target w invoked =
     invoke_each (filter (\<lambda>(name, fn). PyStr name \<noteq> target) fns) w invoked"
proof (induction fns arbitrary: w invoked)
  case Nil
  show ?case by simp
next
  case (Cons nf fns)
  obtain name fn where nf: "nf = (name, fn)" by (cases nf)
  show ?case
  proof (cases "PyStr name = target")
    case True
    with nf Cons.IH [of w invoked] show ?thesis by simp
  next
    case False
    obtain res w' where fn: "fn w = (res, w')" by (cases "fn w")
    show ?thesis
    proof (cases res)
      case (Inl e)
      with False nf fn show ?thesis by simp
    next
      case (Inr u)
      with False nf fn Cons.IH [of w' "invoked @ [name]"] show ?thesis by simp
    qed
  qed
qed

lemma invoke_each_trace_bounds:
  "prefix invoked (snd (snd (invoke_each fns w invoked))) \<and>
   prefix (snd (snd (invoke_each fns w invoked))) (invoked @ map fst fns)"
proof (induction fns arbitrary: w invoked)
  case Nil
  show ?case by simp
next
  case (Cons nf fns)
  obtain name fn where nf: "nf = (name, fn)" by (cases nf)
  obtain res w' where fn: "fn w = (res, w')" by (cases "fn w")
  show ?case
  proof (cases res)
    case (Inl e)
    with nf fn show ?thesis by simp
  next
    case (Inr u)
    let ?tr = "snd (snd (invoke_each fns w' (invoked @ [name])))"
    from Cons.IH [of "invoked @ [name]" w']
    have lo: "prefix (invoked @ [name]) ?tr"
      and hi: "prefix ?tr ((invoked @ [name]) @ map fst fns)"
      by (rule conjunct1, rule conjunct2)
    from lo have lo': "prefix invoked ?tr" by (rule append_prefixD)
    from nf fn Inr have eq: "snd (snd (invoke_each (nf # fns) w invoked)) = ?tr"
      by simp
    from hi nf have hi': "prefix ?tr (invoked @ map fst (nf # fns))" by simp
    from lo' hi' show ?thesis unfolding eq by (rule conjI)
  qed
qed

lemma invoke_each_trace_Returned:
  "fst (invoke_each fns w invoked) = Returned () \<Longrightarrow>
     snd (snd (invoke_each fns w invoked)) = invoked @ map fst fns"
proof (induction fns arbitrary: w invoked)
  case Nil
  show ?case by simp
next
  case (Cons nf fns)
  obtain name fn where nf: "nf = (name, fn)" by (cases nf)
  obtain res w' where fn: "fn w = (res, w')" by (cases "fn w")
  show ?case
  proof (cases res)
    case (Inl e)
    with nf fn Cons.prems show ?thesis by simp
  next
    case (Inr u)
    with nf fn Cons.prems have "fst (invoke_each fns w' (invoked @ [name])) = Returned ()"
      by simp
    from Cons.IH [OF this] nf fn Inr show ?thesis by simp
  qed
qed

lemma filter_memberD: "x \<in> set (filter P xs) \<Longrightarrow> P x"
  by simp

lemma map_fst_filter_names:
  "map fst (filter (\<lambda>(name, fn). P name) fns) = filter P (map fst fns)"
  by (induction fns) auto

lemma unload_backend_fns_names:
  "map fst (unload_backend_fns mods) = [''hf_transformers'', ''vllm'', ''tgi'', ''fastchat'']"
  by (simp add: unload_backend_fns_def)

lemma switch_trace:
  "prefix (snd (snd (switch_inference_backend mods target w)))
     (filter (\<lambda>name. PyStr name \<noteq> target) [''hf_transformers'', ''vllm'', ''tgi'', ''fastchat'']) \<and>
   (fst (switch_inference_backend mods target w) = Returned () \<longrightarrow>
      snd (snd (switch_inference_backend mods target w)) =
        filter (\<lambda>name. PyStr name \<noteq> target) [''hf_transformers'', ''vllm'', ''tgi'', ''fastchat''])"
proof -
  let ?fns = "filter (\<lambda>(name, fn). PyStr name \<noteq> target) (unload_backend_fns mods)"
  have sw: "switch_inference_backend mods target w = invoke_each ?fns w []"
    by (simp only: switch_inference_backend_def unload_loop_invoke_each)
  have names: "map fst ?fns =
      filter (\<lambda>name. PyStr name \<noteq> target) [''hf_transformers'', ''vllm'', ''tgi'', ''fastchat'']"
    by (simp only: map_fst_filter_names unload_backend_fns_names)
  from invoke_each_trace_bounds [of "[]" ?fns w]
  have pre: "prefix (snd (snd (invoke_each ?fns w []))) ([] @ map fst ?fns)"
    by (rule conjunct2)
  have ret: "snd (snd (invoke_each ?fns w [])) = [] @ map fst ?fns"
    if "fst (invoke_each ?fns w []) = Returned ()"
    using that by (rule invoke_each_trace_Returned)
  show ?thesis
    unfolding sw
  proof (intro conjI impI)
    from pre show "prefix (snd (snd (invoke_each ?fns w [])))
       (filter (\<lambda>name. PyStr name \<noteq> target) [''hf_transformers'', ''vllm'', ''tgi'', ''fastchat''])"
      by (simp only: append_Nil names)
  next
    assume "fst (invoke_each ?fns w []) = Returned ()"
    then have "snd (snd (invoke_each ?fns w [])) = [] @ map fst ?fns" by (rule ret)
    then show "snd (snd (invoke_each ?fns w [])) =
       filter (\<lambda>name. PyStr name \<noteq> target) [''hf_transformers'', ''vllm'', ''tgi'', ''fastchat'']"
      by (simp only: append_Nil names)
  qed
qed

lemma switch_at_hf_transformers:
  "switch_inference_backend mods (PyStr ''hf_transformers'') w =
     invoke_each [(''vllm'', vllm_backend_unload_model mods), (''tgi'', tgi_unload_model mods),
       (''fastchat'', fastchat_unload_model mods)] w []"
  by (simp add: switch_inference_backend_def unload_loop_invoke_each unload_backend_fns_def)

lemma switch_at_vllm:
  "switch_inference_backend mods (PyStr ''vllm'') w =
     invoke_each [(''hf_transformers'', hf_transformers_unload_model mods),
       (''tgi'', tgi_unload_model mods), (''fastchat'', fastchat_unload_model mods)] w []"
  by (simp add: switch_inference_backend_def unload_loop_invoke_each unload_backend_fns_def)

lemma switch_at_tgi:
  "switch_inference_backend mods (PyStr ''tgi'') w =
     invoke_each [(''hf_transformers'', hf_transformers_unload_model mods),
       (''vllm'', vllm_backend_unload_model mods),
       (''fastchat'', fastchat_unload_model mods)] w []"
  by (simp add: switch_inference_backend_def unload_loop_invoke_each unload_backend_fns_def)

lemma switch_at_fastchat:
  "switch_inference_backend mods (PyStr ''fastchat'') w =
     invoke_each [(''hf_transformers'', hf_transformers_unload_model mods),
       (''vllm'', vllm_backend_unload_model mods), (''tgi'', tgi_unload_model mods)] w []"
  by (simp add: switch_inference_backend_def unload_loop_invoke_each unload_backend_fns_def)

text \<open>
  C8. \<^verbatim>\<open>switch_inference_backend\<close> does what invoking, in the order of the dict, the
  unload function of each known backend whose name is not the target does. The
  unload function of the target is never invoked; the functions invoked are the
  first ones of the known backends other than the target, and all of them when
  the call returns, that is when none of them raises. Backend by backend: for
  the target \<open>hf_transformers\<close> the functions run are, in this order, the
  \<^verbatim>\<open>unload_model\<close> of the modules \<open>vllm_backend\<close>, \<open>tgi\<close> and \<open>fastchat\<close>; for \<open>vllm\<close>
  those of \<open>hf_transformers\<close>, \<open>tgi\<close> and \<open>fastchat\<close>; for \<open>tgi\<close> those of
  \<open>hf_transformers\<close>, \<open>vllm_backend\<close> and \<open>fastchat\<close>; for \<open>fastchat\<close> those of
  \<open>hf_transformers\<close>, \<open>vllm_backend\<close> and \<open>tgi\<close>. When these three return, the call
  returns with the state of the backends that the third leaves; and what the
  target's own function is makes no difference to the call.
\<close>

theorem switch_inference_backend_unloads_others:
  "switch_inference_backend mods target w =
     invoke_each (filter (\<lambda>(name, fn). PyStr name \<noteq> target) (unload_backend_fns mods)) w [] \<and>
   (\<forall>t. target = PyStr t \<longrightarrow> t \<notin> set (snd (snd (switch_inference_backend mods target w)))) \<and>
   prefix (snd (snd (switch_inference_backend mods target w)))
     (filter (\<lambda>name. PyStr name \<noteq> target) [''hf_transformers'', ''vllm'', ''tgi'', ''fastchat'']) \<and>
   (fst (switch_inference_backend mods target w) = Returned () \<longrightarrow>
      snd (snd (switch_inference_backend mods target w)) =
        filter (\<lambda>name. PyStr name \<noteq> target) [''hf_transformers'', ''vllm'', ''tgi'', ''fastchat'']) \<and>
   switch_inference_backend mods (PyStr ''hf_transformers'') w =
     invoke_each [(''vllm'', vllm_backend_unload_model mods), (''tgi'', tgi_unload_model mods),
       (''fastchat'', fastchat_unload_model mods)] w [] \<and>
   switch_inference_backend mods (PyStr ''vllm'') w =
     invoke_each [(''hf_transformers'', hf_transformers_unload_model mods),
       (''tgi'', tgi_unload_model mods), (''fastchat'', fastchat_unload_model mods)] w [] \<and>
   switch_inference_backend mods (PyStr ''tgi'') w =
     invoke_each [(''hf_transformers'', hf_transformers_unload_model mods),
       (''vllm'', vllm_backend_unload_model mods),
       (''fastchat'', fastchat_unload_model mods)] w [] \<and>
   switch_inference_backend mods (PyStr ''fastchat'') w =
     invoke_each [(''hf_transformers'', hf_transformers_unload_model mods),
       (''vllm'', vllm_backend_unload_model mods), (''tgi'', tgi_unload_model mods)] w [] \<and>
   (vllm_backend_unload_model mods w = (Inr (), w1) \<and> tgi_unload_model mods w1 = (Inr (), w2) \<and>
    fastchat_unload_model mods w2 = (Inr (), w3) \<longrightarrow>
      switch_inference_backend mods (PyStr ''hf_transformers'') w =
        (Returned (), w3, [''vllm'', ''tgi'', ''fastchat''])) \<and>
   (hf_transformers_unload_model mods w = (Inr (), w1) \<and> tgi_unload_model mods w1 = (Inr (), w2) \<and>
    fastchat_unload_model mods w2 = (Inr (), w3) \<longrightarrow>
      switch_inference_backend mods (PyStr ''vllm'') w =
        (Returned (), w3, [''hf_transformers'', ''tgi'', ''fastchat''])) \<and>
   (hf_transformers_unload_model mods w = (Inr (), w1) \<and>
    vllm_backend_unload_model mods w1 = (Inr (), w2) \<and>
    fastchat_unload_model mods w2 = (Inr (), w3) \<longrightarrow>
      switch_inference_backend mods (PyStr ''tgi'') w =
        (Returned (), w3, [''hf_transformers'', ''vllm'', ''fastchat''])) \<and>
   (hf_transformers_unload_model mods w = (Inr (), w1) \<and>
    vllm_backend_unload_model mods w1 = (Inr (), w2) \<and>
    tgi_unload_model mods w2 = (Inr (), w3) \<longrightarrow>
      switch_inference_backend mods (PyStr ''fastchat'') w =
        (Returned (), w3, [''hf_transformers'', ''vllm'', ''tgi''])) \<and>
   (hf_transformers_unload_model mods w = (Inl e, w1) \<longrightarrow>
      switch_inference_backend mods (PyStr ''tgi'') w = (Raised e, w1, [''hf_transformers''])) \<and>
   switch_inference_backend (mods\<lparr>hf_transformers_unload_model := f\<rparr>)
       (PyStr ''hf_transformers'') w =
     switch_inference_backend mods (PyStr ''hf_transformers'') w \<and>
   switch_inference_backend (mods\<lparr>vllm_backend_unload_model := f\<rparr>) (PyStr ''vllm'') w =
     switch_inference_backend mods (PyStr ''vllm'') w \<and>
   switch_inference_backend (mods\<lparr>tgi_unload_model := f\<rparr>) (PyStr ''tgi'') w =
     switch_inference_backend mods (PyStr ''tgi'') w \<and>
   switch_inference_backend (mods\<lparr>fastchat_unload_model := f\<rparr>) (PyStr ''fastchat'') w =
     switch_inference_backend mods (PyStr ''fastchat'') w"
proof -
  let ?others =
    "filter (\<lambda>name. PyStr name \<noteq> target) [''hf_transformers'', ''vllm'', ''tgi'', ''fastchat'']"
  have sw: "switch_inference_backend mods target w =
     invoke_each (filter (\<lambda>(name, fn). PyStr name \<noteq> target) (unload_backend_fns mods)) w []"
    by (simp only: switch_inference_backend_def unload_loop_invoke_each)
  note tr = switch_trace [of mods target w]
  from tr have pre: "prefix (snd (snd (switch_inference_backend mods target w))) ?others"
    by (rule conjunct1)
  have spared: "t \<notin> set (snd (snd (switch_inference_backend mods target w)))"
    if "target = PyStr t" for t
  proof
    assume "t \<in> set (snd (snd (switch_inference_backend mods target w)))"
    with pre have "t \<in> set ?others" by (rule set_mono_prefix [THEN subsetD])
    then have "PyStr t \<noteq> target" by (rule filter_memberD)
    with that show False by simp
  qed
  have general: "switch_inference_backend mods target w =
     invoke_each (filter (\<lambda>(name, fn). PyStr name \<noteq> target) (unload_backend_fns mods)) w [] \<and>
   (\<forall>t. target = PyStr t \<longrightarrow> t \<notin> set (snd (snd (switch_inference_backend mods target w)))) \<and>
   prefix (snd (snd (switch_inference_backend mods target w)))
     (filter (\<lambda>name. PyStr name \<noteq> target) [''hf_transformers'', ''vllm'', ''tgi'', ''fastchat'']) \<and>
   (fst (switch_inference_backend mods target w) = Returned () \<longrightarrow>
      snd (snd (switch_inference_backend mods target w)) =
        filter (\<lambda>name. PyStr name \<noteq> target) [''hf_transformers'', ''vllm'', ''tgi'', ''fastchat''])"
    proof (intro conjI allI impI)
      show "switch_inference_backend mods target w =
       invoke_each (filter (\<lambda>(name, fn). PyStr name \<noteq> target) (unload_backend_fns mods)) w []"
        by (rule sw)
    next
      fix t assume "target = PyStr t"
      then show "t \<notin> set (snd (snd (switch_inference_backend mods target w)))"
        by (rule spared)
    next
      show "prefix (snd (snd (switch_inference_backend mods target w))) ?others"
        by (rule pre)
    next
      assume "fst (switch_inference_backend mods target w) = Returned ()"
      with tr show "snd (snd (switch_inference_backend mods target w)) = ?others"
        by (rule conjunct2 [THEN mp])
    qed
  have ret_hf: "switch_inference_backend mods (PyStr ''hf_transformers'') w =
        (Returned (), w3, [''vllm'', ''tgi'', ''fastchat''])"
    if "vllm_backend_unload_model mods w = (Inr (), w1) \<and> tgi_unload_model mods w1 = (Inr (), w2) \<and>
      fastchat_unload_model mods w2 = (Inr (), w3)"
    using that by (simp add: switch_at_hf_transformers)
  have ret_vllm: "switch_inference_backend mods (PyStr ''vllm'') w =
        (Returned (), w3, [''hf_transformers'', ''tgi'', ''fastchat''])"
    if "hf_transformers_unload_model mods w = (Inr (), w1) \<and> tgi_unload_model mods w1 = (Inr (), w2) \<and>
      fastchat_unload_model mods w2 = (Inr (), w3)"
    using that by (simp add: switch_at_vllm)
  have ret_tgi: "switch_inference_backend mods (PyStr ''tgi'') w =
        (Returned (), w3, [''hf_transformers'', ''vllm'', ''fastchat''])"
    if "hf_transformers_unload_model mods w = (Inr (), w1) \<and>
      vllm_backend_unload_model mods w1 = (Inr (), w2) \<and>
      fastchat_unload_model mods w2 = (Inr (), w3)"
    using that by (simp add: switch_at_tgi)
  have ret_fastchat: "switch_inference_backend mods (PyStr ''fastchat'') w =
        (Returned (), w3, [''hf_transformers'', ''vllm'', ''tgi''])"
    if "hf_transformers_unload_model mods w = (Inr (), w1) \<and>
      vllm_backend_unload_model mods w1 = (Inr (), w2) \<and>
      tgi_unload_model mods w2 = (Inr (), w3)"
    using that by (simp add: switch_at_fastchat)
  have raise_tgi: "switch_inference_backend mods (PyStr ''tgi'') w =
      (Raised e, w1, [''hf_transformers''])"
    if "hf_transformers_unload_model mods w = (Inl e, w1)"
    using that by (simp add: switch_at_tgi)
  have frame_hf: "switch_inference_backend (mods\<lparr>hf_transformers_unload_model := f\<rparr>)
       (PyStr ''hf_transformers'') w =
     switch_inference_backend mods (PyStr ''hf_transformers'') w"
    by (simp add: switch_at_hf_transformers)
  have frame_vllm: "switch_inference_backend (mods\<lparr>vllm_backend_unload_model := f\<rparr>)
       (PyStr ''vllm'') w =
     switch_inference_backend mods (PyStr ''vllm'') w"
    by (simp add: switch_at_vllm)
  have frame_tgi: "switch_inference_backend (mods\<lparr>tgi_unload_model := f\<rparr>) (PyStr ''tgi'') w =
     switch_inference_backend mods (PyStr ''tgi'') w"
    by (simp add: switch_at_tgi)
  have frame_fastchat: "switch_inference_backend (mods\<lparr>fastchat_unload_model := f\<rparr>)
       (PyStr ''fastchat'') w =
     switch_inference_backend mods (PyStr ''fastchat'') w"
    by (simp add: switch_at_fastchat)
  show ?thesis
    apply (rule conjI [OF general [THEN conjunct1]])
    apply (rule conjI [OF general [THEN conjunct2, THEN conjunct1]])
    apply (rule conjI [OF general [THEN conjunct2, THEN conjunct2, THEN conjunct1]])
    apply (rule conjI [OF general [THEN conjunct2, THEN conjunct2, THEN conjunct2]])
    apply (rule conjI [OF switch_at_hf_transformers])
    apply (rule conjI [OF switch_at_vllm])
    apply (rule conjI [OF switch_at_tgi])
    apply (rule conjI [OF switch_at_fastchat])
    apply (rule conjI [OF impI [OF ret_hf]], assumption)
    apply (rule conjI [OF impI [OF ret_vllm]], assumption)
    apply (rule conjI [OF impI [OF ret_tgi]], assumption)
    apply (rule conjI [OF impI [OF ret_fastchat]], assumption)
    apply (rule conjI [OF impI [OF raise_tgi]], assumption)
    apply (rule conjI [OF frame_hf])
    apply (rule conjI [OF frame_vllm])
    apply (rule conjI [OF frame_tgi])
    apply (rule frame_fastchat)
    done
qed

theorem switch_inference_backend_unloads_others_witness:
  "switch_inference_backend counting_modules (PyStr ''hf_transformers'') 0 =
     (Returned (), 1110, [''vllm'', ''tgi'', ''fastchat'']) \<and>
   switch_inference_backend counting_modules (PyStr ''vllm'') 0 =
     (Returned (), 1101, [''hf_transformers'', ''tgi'', ''fastchat'']) \<and>
   switch_inference_backend counting_modules (PyStr ''tgi'') 0 =
     (Returned (), 1011, [''hf_transformers'', ''vllm'', ''fastchat'']) \<and>
   switch_inference_backend counting_modules (PyStr ''fastchat'') 0 =
     (Returned (), 111, [''hf_transformers'', ''vllm'', ''tgi'']) \<and>
   ''tgi'' \<notin> set (snd (snd (switch_inference_backend counting_modules (PyStr ''tgi'') 0)))"
proof -
  have h1: "vllm_backend_unload_model counting_modules 0 = (Inr (), 10) \<and>
      tgi_unload_model counting_modules 10 = (Inr (), 110) \<and>
      fastchat_unload_model counting_modules 110 = (Inr (), 1110)"
    by (simp add: counting_modules_def)
  have h2: "hf_transformers_unload_model counting_modules 0 = (Inr (), 1) \<and>
      tgi_unload_model counting_modules 1 = (Inr (), 101) \<and>
      fastchat_unload_model counting_modules 101 = (Inr (), 1101)"
    by (simp add: counting_modules_def)
  have h3: "hf_transformers_unload_model counting_modules 0 = (Inr (), 1) \<and>
      vllm_backend_unload_model counting_modules 1 = (Inr (), 11) \<and>
      fastchat_unload_model counting_modules 11 = (Inr (), 1011)"
    by (simp add: counting_modules_def)
  have h4: "hf_transformers_unload_model counting_modules 0 = (Inr (), 1) \<and>
      vllm_backend_unload_model counting_modules 1 = (Inr (), 11) \<and>
      tgi_unload_model counting_modules 11 = (Inr (), 111)"
    by (simp add: counting_modules_def)
  note 1 = switch_inference_backend_unloads_others [where mods = counting_modules and w = 0
        and ?w1.0 = 10 and ?w2.0 = 110 and ?w3.0 = 1110,
        THEN conjunct2, THEN conjunct2, THEN conjunct2, THEN conjunct2, THEN conjunct2, THEN conjunct2, THEN conjunct2, THEN conjunct2, THEN conjunct1, THEN mp, OF h1]
  note 2 = switch_inference_backend_unloads_others [where mods = counting_modules and w = 0
        and ?w1.0 = 1 and ?w2.0 = 101 and ?w3.0 = 1101,
        THEN conjunct2, THEN conjunct2, THEN conjunct2, THEN conjunct2, THEN conjunct2, THEN conjunct2, THEN conjunct2, THEN conjunct2, THEN conjunct2, THEN conjunct1, THEN mp, OF h2]
  note 3 = switch_inference_backend_unloads_others [where mods = counting_modules and w = 0
        and ?w1.0 = 1 and ?w2.0 = 11 and ?w3.0 = 1011,
        THEN conjunct2, THEN conjunct2, THEN conjunct2, THEN conjunct2, THEN conjunct2, THEN conjunct2, THEN conjunct2, THEN conjunct2, THEN conjunct2, THEN conjunct2, THEN conjunct1, THEN mp, OF h3]
  note 4 = switch_inference_backend_unloads_others [where mods = counting_modules and w = 0
        and ?w1.0 = 1 and ?w2.0 = 11 and ?w3.0 = 111,
        THEN conjunct2, THEN conjunct2, THEN conjunct2, THEN conjunct2, THEN conjunct2, THEN conjunct2, THEN conjunct2, THEN conjunct2, THEN conjunct2, THEN conjunct2, THEN conjunct2, THEN conjunct1, THEN mp, OF h4]
  from switch_inference_backend_unloads_others [where mods = counting_modules and w = 0
      and target = "PyStr ''tgi''", THEN conjunct2, THEN conjunct1]
  have 5: "''tgi'' \<notin> set (snd (snd (switch_inference_backend counting_modules (PyStr ''tgi'') 0)))"
    by (rule allE) (rule mp, assumption, rule refl)
  from 1 2 3 4 5 show ?thesis by (intro conjI)
qed

lemma filter_unknown_target:
  assumes "target \<notin> {PyStr ''hf_transformers'', PyStr ''vllm'', PyStr ''tgi'', PyStr ''fastchat''}"
  shows "filter (\<lambda>(name, fn). PyStr name \<noteq> target) (unload_backend_fns mods) =
     unload_backend_fns mods"
proof -
  from assms have "PyStr ''hf_transformers'' \<noteq> target" "PyStr ''vllm'' \<noteq> target"
    "PyStr ''tgi'' \<noteq> target" "PyStr ''fastchat'' \<noteq> target"
    by auto
  then show ?thesis by (simp add: unload_backend_fns_def)
qed

lemma switch_unknown_target:
  assumes "target \<notin> {PyStr ''hf_transformers'', PyStr ''vllm'', PyStr ''tgi'', PyStr ''fastchat''}"
  shows "switch_inference_backend mods target w = invoke_each (unload_backend_fns mods) w []"
  by (simp only: switch_inference_backend_def unload_loop_invoke_each
      filter_unknown_target [OF assms])

lemma invoke_all_Returned:
  assumes "fst (invoke_each (unload_backend_fns mods) w []) = Returned ()"
  shows "snd (snd (invoke_each (unload_backend_fns mods) w [])) =
     [''hf_transformers'', ''vllm'', ''tgi'', ''fastchat'']"
  using invoke_each_trace_Returned [OF assms]
  by (simp only: append_Nil unload_backend_fns_names)

text \<open>
  C10. \<^verbatim>\<open>unload_model()\<close> is \<^verbatim>\<open>switch_inference_backend(None)\<close>. For \<open>None\<close>, as for any
  argument that is not one of the four backend names, no backend is skipped: the
  call does what invoking the unload functions of \<open>hf_transformers\<close>, \<open>vllm\<close>, \<open>tgi\<close>
  and \<open>fastchat\<close> in this order does, and when it returns all four have been invoked.
\<close>

theorem unload_model_unloads_all:
  "unload_model mods w = switch_inference_backend mods PyNone w \<and>
   unload_model mods w = invoke_each (unload_backend_fns mods) w [] \<and>
   (fst (unload_model mods w) = Returned () \<longrightarrow>
      snd (snd (unload_model mods w)) = [''hf_transformers'', ''vllm'', ''tgi'', ''fastchat'']) \<and>
   (target \<notin> {PyStr ''hf_transformers'', PyStr ''vllm'', PyStr ''tgi'', PyStr ''fastchat''} \<longrightarrow>
      switch_inference_backend mods target w = unload_model mods w \<and>
      (fst (switch_inference_backend mods target w) = Returned () \<longrightarrow>
         snd (snd (switch_inference_backend mods target w)) =
           [''hf_transformers'', ''vllm'', ''tgi'', ''fastchat'']))"
proof -
  have none: "PyNone \<notin> {PyStr ''hf_transformers'', PyStr ''vllm'', PyStr ''tgi'', PyStr ''fastchat''}"
    by simp
  have um: "unload_model mods w = invoke_each (unload_backend_fns mods) w []"
    by (simp only: unload_model_def switch_unknown_target [OF none])
  show ?thesis
  proof (intro conjI impI)
    show "unload_model mods w = switch_inference_backend mods PyNone w"
      by (simp only: unload_model_def)
  next
    show "unload_model mods w = invoke_each (unload_backend_fns mods) w []" by (rule um)
  next
    assume "fst (unload_model mods w) = Returned ()"
    then have "fst (invoke_each (unload_backend_fns mods) w []) = Returned ()"
      by (simp only: um)
    then show "snd (snd (unload_model mods w)) =
        [''hf_transformers'', ''vllm'', ''tgi'', ''fastchat'']"
      unfolding um by (rule invoke_all_Returned)
  next
    assume t: "target \<notin> {PyStr ''hf_transformers'', PyStr ''vllm'', PyStr ''tgi'', PyStr ''fastchat''}"
    show "switch_inference_backend mods target w = unload_model mods w"
      by (simp only: um switch_unknown_target [OF t])
  next
    assume t: "target \<notin> {PyStr ''hf_transformers'', PyStr ''vllm'', PyStr ''tgi'', PyStr ''fastchat''}"
      and r: "fst (switch_inference_backend mods target w) = Returned ()"
    from r have "fst (invoke_each (unload_backend_fns mods) w []) = Returned ()"
      by (simp only: switch_unknown_target [OF t])
    then show "snd (snd (switch_inference_backend mods target w)) =
        [''hf_transformers'', ''vllm'', ''tgi'', ''fastchat'']"
      unfolding switch_unknown_target [OF t] by (rule invoke_all_Returned)
  qed
qed

theorem unload_model_unloads_all_witness:
  "unload_model counting_modules 0 =
     (Returned (), 1111, [''hf_transformers'', ''vllm'', ''tgi'', ''fastchat'']) \<and>
   switch_inference_backend counting_modules (PyStr ''openai'') 0 =
     (Returned (), 1111, [''hf_transformers'', ''vllm'', ''tgi'', ''fastchat''])"
proof -
  note T = unload_model_unloads_all [of counting_modules 0 "PyStr ''openai''"]
  from T have "unload_model counting_modules 0 =
      invoke_each (unload_backend_fns counting_modules) 0 []"
    by (rule conjunct2 [THEN conjunct1])
  then have run: "unload_model counting_modules 0 =
     (Returned (), 1111, [''hf_transformers'', ''vllm'', ''tgi'', ''fastchat''])"
    by (simp add: unload_backend_fns_def counting_modules_def)
  have other: "PyStr ''openai'' \<notin>
      {PyStr ''hf_transformers'', PyStr ''vllm'', PyStr ''tgi'', PyStr ''fastchat''}"
    by simp
  from T [THEN conjunct2, THEN conjunct2, THEN conjunct2, THEN mp, OF other]
  have "switch_inference_backend counting_modules (PyStr ''openai'') 0 =
      unload_model counting_modules 0"
    by (rule conjunct1)
  with run have "switch_inference_backend counting_modules (PyStr ''openai'') 0 =
     (Returned (), 1111, [''hf_transformers'', ''vllm'', ''tgi'', ''fastchat''])"
    by (simp only:)
  with run show ?thesis by (intro conjI)
qed

end
